theory Spec2Isabelle
  imports
    Complex_Main
    "HOL-Library.Char_ord"
    "HOL-Library.List_Lexorder"
    "HOL-Library.Sublist"
begin

section \<open>JSON documents as the Python code sees them\<close>

text \<open>
  The bot reads loosely typed JSON. A parsed document is a Python value: \<open>None\<close>,
  a \<open>bool\<close>, an \<open>int\<close>, a \<open>float\<close>, a \<open>str\<close>, a \<open>list\<close> or a
  \<open>dict\<close> with string keys. A \<open>dict\<close> keeps its insertion order, so it is an
  association list, read with \<open>map_of\<close> (a parsed dictionary has no duplicate key).

  Python strings are kept as their UTF-8 bytes (type \<open>string\<close>): byte-wise
  lexicographic order is code point order, and splitting at an ASCII letter or
  percent-encoding commute with the encoding.

  Python floats are idealised as reals: \<open>float(n)\<close> of an integer is the integer itself.
  IEEE rounding, infinities and NaN are outside this development.
\<close>

datatype json =
    JNull
  | JBool bool
  | JInt int
  | JFloat real
  | JStr string
  | JList "json list"
  | JObj "(string \<times> json) list"

type_synonym pydict = "(string \<times> json) list"

text \<open>\<open>d.get(k)\<close>: the stored entry, or \<open>None\<close> when the key is missing.\<close>

definition dget :: "pydict \<Rightarrow> string \<Rightarrow> json" where
  "dget d k = (case map_of d k of None \<Rightarrow> JNull | Some v \<Rightarrow> v)"

text \<open>Python truthiness, as used by \<open>or\<close>, \<open>not\<close> and \<open>if\<close>.\<close>

fun truthy :: "json \<Rightarrow> bool" where
  "truthy JNull = False"
| "truthy (JBool b) = b"
| "truthy (JInt n) = (n \<noteq> 0)"
| "truthy (JFloat x) = (x \<noteq> 0)"
| "truthy (JStr s) = (s \<noteq> [])"
| "truthy (JList xs) = (xs \<noteq> [])"
| "truthy (JObj kvs) = (kvs \<noteq> [])"

text \<open>\<open>a or b\<close> returns \<open>a\<close> itself when it is truthy, otherwise \<open>b\<close>.\<close>

definition py_or :: "json \<Rightarrow> json \<Rightarrow> json" where
  "py_or a b = (if truthy a then a else b)"

text \<open>
  \<open>isinstance(v, (int, float))\<close>. Python's \<open>bool\<close> is a subclass of \<open>int\<close>, so both
  booleans pass the test, and \<open>float(True)\<close> is \<open>1.0\<close>.
\<close>

fun is_int_or_float :: "json \<Rightarrow> bool" where
  "is_int_or_float (JBool b) = True"
| "is_int_or_float (JInt n) = True"
| "is_int_or_float (JFloat x) = True"
| "is_int_or_float v = False"

fun is_int :: "json \<Rightarrow> bool" where
  "is_int (JBool b) = True"
| "is_int (JInt n) = True"
| "is_int v = False"

fun py_float :: "json \<Rightarrow> real" where
  "py_float (JBool b) = (if b then 1 else 0)"
| "py_float (JInt n) = real_of_int n"
| "py_float (JFloat x) = x"
| "py_float v = 0"

fun is_str :: "json \<Rightarrow> bool" where
  "is_str (JStr s) = True"
| "is_str v = False"

fun is_list :: "json \<Rightarrow> bool" where
  "is_list (JList xs) = True"
| "is_list v = False"

fun is_dict :: "json \<Rightarrow> bool" where
  "is_dict (JObj kvs) = True"
| "is_dict v = False"

section \<open>Price normalisation\<close>

text \<open>
  \<open>_norm_price\<close>, the helper nested in \<open>get_market_breakdown\<close>
  (\<open>scmm_client.py\<close>): a value that is not an int or a float has no price; a number above
  50 is read as cents.
\<close>

definition norm_price :: "json \<Rightarrow> real option" where
  "norm_price val =
     (if \<not> is_int_or_float val then None
      else let v = py_float val in Some (if v > 50 then v / 100 else v))"

text \<open>\<open>extract_store_price_from_details\<close>: the same rule on the field \<open>storePrice\<close>.\<close>

definition extract_store_price_from_details :: "pydict \<Rightarrow> real option" where
  "extract_store_price_from_details details =
     (let val = dget details ''storePrice'' in
      if \<not> is_int_or_float val then None
      else let v = py_float val in Some (if v > 50 then v / 100 else v))"

section \<open>Store items\<close>

text \<open>
  The dataclass \<open>StoreItem\<close>. Python does not enforce the annotations, so each field
  holds whatever the constructor is given; only \<open>store_price\<close> is computed.
\<close>

record store_item =
  item_id :: json
  item_name :: json
  store_price :: "real option"
  icon_url :: json
  workshop_file_id :: json
  app_id :: json
  item_type :: json
  item_collection :: json

text \<open>
  The loop over the four price keys of \<open>_normalize_store_item\<close>: the first key whose
  entry is an int or a float gives \<open>raw_price\<close>, and the loop stops there.
\<close>

fun first_raw_price :: "pydict \<Rightarrow> string list \<Rightarrow> real option" where
  "first_raw_price raw [] = None"
| "first_raw_price raw (k # ks) =
     (let val = dget raw k in
      if is_int_or_float val then Some (py_float val) else first_raw_price raw ks)"

definition price_keys :: "string list" where
  "price_keys = [''storePrice'', ''price'', ''usdPrice'', ''finalPrice'']"

definition normalize_store_item :: "pydict \<Rightarrow> store_item" where
  "normalize_store_item raw =
     (let id0 = dget raw ''id'';
          name = py_or (dget raw ''name'') (JStr ''Unknown'');
          raw_price = first_raw_price raw price_keys;
          sp = (case raw_price of
                  None \<Rightarrow> None
                | Some rp \<Rightarrow> Some (if rp > 50 then rp / 100 else rp));
          icon = py_or (dget raw ''iconUrl'')
                   (py_or (dget raw ''iconURL'') (py_or (dget raw ''imageUrl'') JNull));
          wfid = dget raw ''workshopFileId'';
          aid = dget raw ''appId'';
          ity = py_or (dget raw ''itemType'') JNull;
          icoll = py_or (dget raw ''itemCollection'') JNull
      in \<lparr> item_id = id0, item_name = name, store_price = sp, icon_url = icon,
           workshop_file_id = wfid, app_id = aid, item_type = ity,
           item_collection = icoll \<rparr>)"

text \<open>
  The first of the four price keys that holds a number, as a JSON value
  (\<open>JNull\<close> when none does): the input of the store-price normalisation.
\<close>

fun first_numeric :: "pydict \<Rightarrow> string list \<Rightarrow> json" where
  "first_numeric raw [] = JNull"
| "first_numeric raw (k # ks) =
     (if is_int_or_float (dget raw k) then dget raw k else first_numeric raw ks)"

section \<open>Market breakdown\<close>

text \<open>
  The three variables that \<open>scan\<close> (nested in \<open>get_market_breakdown\<close>) updates
  through \<open>nonlocal\<close>.
\<close>

record venue_prices =
  steam_price :: "real option"
  skinport_price :: "real option"
  csdeals_price :: "real option"

text \<open>\<open>if cur is None or p < cur: cur = p\<close>.\<close>

fun better :: "real option \<Rightarrow> real \<Rightarrow> real option" where
  "better None p = Some p"
| "better (Some c) p = (if p < c then Some p else Some c)"

text \<open>
  One round of the loop of \<open>scan\<close>. \<open>entry.get("isAvailable") is False\<close> is an identity
  test against the boolean \<open>False\<close>; \<open>mtype in (...)\<close> and \<open>mtype == ...\<close> compare
  with strings, so only a string can be equal.
\<close>

definition scan_entry :: "venue_prices \<Rightarrow> json \<Rightarrow> venue_prices" where
  "scan_entry st entry =
     (case entry of
        JObj e \<Rightarrow>
          if dget e ''isAvailable'' = JBool False then st
          else
            let mtype = dget e ''marketType'' in
            (case norm_price (dget e ''price'') of
               None \<Rightarrow> st
             | Some p \<Rightarrow>
                 if mtype = JStr ''SteamCommunityMarket'' \<or> mtype = JStr ''SteamMarket''
                 then st\<lparr>steam_price := better (steam_price st) p\<rparr>
                 else if mtype = JStr ''Skinport''
                 then st\<lparr>skinport_price := better (skinport_price st) p\<rparr>
                 else if mtype = JStr ''CSDealsMarketplace''
                 then st\<lparr>csdeals_price := better (csdeals_price st) p\<rparr>
                 else st)
      | _ \<Rightarrow> st)"

fun scan :: "venue_prices \<Rightarrow> json list \<Rightarrow> venue_prices" where
  "scan st [] = st"
| "scan st (entry # seq) = scan (scan_entry st entry) seq"

text \<open>\<open>for key in ("buyPrices", "sellPrices")\<close>: a field that is not a list is skipped.\<close>

definition scan_key :: "pydict \<Rightarrow> venue_prices \<Rightarrow> string \<Rightarrow> venue_prices" where
  "scan_key details st key =
     (case dget details key of JList seq \<Rightarrow> scan st seq | _ \<Rightarrow> st)"

text \<open>\<open>_pct_vs_steam\<close>, with the Steam price it closes over as first argument.\<close>

definition pct_vs_steam :: "real option \<Rightarrow> real option \<Rightarrow> real option" where
  "pct_vs_steam steam price =
     (case steam of
        None \<Rightarrow> None
      | Some s \<Rightarrow>
          (case price of
             None \<Rightarrow> None
           | Some p \<Rightarrow> if s = 0 then None else Some ((p - s) / s * 100)))"

text \<open>The dictionary that \<open>get_market_breakdown\<close> returns, one field for each key.\<close>

record breakdown =
  bd_store_price :: "real option"
  bd_steam_price :: "real option"
  bd_steam_vs_store_pct :: "real option"
  bd_skinport_price :: "real option"
  bd_skinport_vs_steam_pct :: "real option"
  bd_csdeals_price :: "real option"
  bd_csdeals_vs_steam_pct :: "real option"

definition no_prices :: venue_prices where
  "no_prices = \<lparr>steam_price = None, skinport_price = None, csdeals_price = None\<rparr>"

definition scanned :: "pydict \<Rightarrow> venue_prices" where
  "scanned details =
     scan_key details (scan_key details no_prices ''buyPrices'') ''sellPrices''"

definition get_market_breakdown :: "pydict \<Rightarrow> breakdown" where
  "get_market_breakdown details =
     (let store = extract_store_price_from_details details;
          st = scanned details;
          steam_vs_store =
            (case store of
               None \<Rightarrow> None
             | Some sp \<Rightarrow>
                 (case steam_price st of
                    None \<Rightarrow> None
                  | Some stp \<Rightarrow> if sp \<noteq> 0 then Some ((stp - sp) / sp * 100) else None))
      in \<lparr> bd_store_price = store,
           bd_steam_price = steam_price st,
           bd_steam_vs_store_pct = steam_vs_store,
           bd_skinport_price = skinport_price st,
           bd_skinport_vs_steam_pct = pct_vs_steam (steam_price st) (skinport_price st),
           bd_csdeals_price = csdeals_price st,
           bd_csdeals_vs_steam_pct = pct_vs_steam (steam_price st) (csdeals_price st) \<rparr>)"

subsection \<open>The best price of a venue, as the specification words it\<close>










text \<open>
  A percentage delta as the specification words it: absent when an operand is absent or
  the base is zero, otherwise \<open>(new - base) / base * 100\<close>.
\<close>

definition pct_delta :: "real option \<Rightarrow> real option \<Rightarrow> real option" where
  "pct_delta base new =
     (if base = None \<or> new = None \<or> base = Some 0 then None
      else Some ((the new - the base) / the base * 100))"

text \<open>A dictionary without one of its keys.\<close>

definition remove_key :: "string \<Rightarrow> pydict \<Rightarrow> pydict" where
  "remove_key k d = filter (\<lambda>kv. fst kv \<noteq> k) d"

text \<open>A price entry of a venue, with a given availability field.\<close>

definition steam_entry_with :: "json \<Rightarrow> json" where
  "steam_entry_with a =
     JObj [(''marketType'', JStr ''SteamMarket''), (''price'', JFloat 2), (''isAvailable'', a)]"


section \<open>Strings: percent-encoding\<close>

text \<open>
  \<open>urllib.parse.quote(s, safe)\<close> works on the UTF-8 bytes of \<open>s\<close>: a letter, a digit, one
  of \<open>_.-~\<close> and every byte of \<open>safe\<close> stay, any other byte becomes \<open>%XX\<close> with two
  upper-case hexadecimal digits.
\<close>

definition always_safe :: string where
  "always_safe =
     ''ABCDEFGHIJKLMNOPQRSTUVWXYZabcdefghijklmnopqrstuvwxyz0123456789_.-~''"

definition hex_digit :: "nat \<Rightarrow> char" where
  "hex_digit n = ''0123456789ABCDEF'' ! (n mod 16)"

definition pct_encode :: "char \<Rightarrow> string" where
  "pct_encode c =
     [CHR ''%'', hex_digit (of_char c div 16), hex_digit (of_char c mod 16)]"

definition quote_with :: "string \<Rightarrow> string \<Rightarrow> string" where
  "quote_with safe s =
     concat (map (\<lambda>c. if c \<in> set always_safe \<or> c \<in> set safe then [c] else pct_encode c) s)"

text \<open>\<open>quote(s, safe="")\<close>, as the client calls it.\<close>

definition quote :: "string \<Rightarrow> string" where
  "quote s = quote_with [] s"

text \<open>
  \<open>urllib.parse.quote_plus(s)\<close>: without a space it is \<open>quote(s, "")\<close>; with one, the
  spaces are kept safe and then replaced by \<open>+\<close>.
\<close>

definition quote_plus :: "string \<Rightarrow> string" where
  "quote_plus s =
     (if CHR '' '' \<notin> set s then quote_with [] s
      else map (\<lambda>c. if c = CHR '' '' then CHR ''+'' else c) (quote_with '' '' s))"

section \<open>Marketplace URLs\<close>

text \<open>The dictionary \<open>urls\<close> of \<open>extract_market_urls\<close>, one field for each venue.\<close>

record market_urls =
  steam_url :: "string option"
  skinport_url :: "string option"
  csdeals_url :: "string option"

text \<open>
  Step 1, one price entry: the first of \<open>url\<close>, \<open>link\<close>, \<open>href\<close> that is truthy must be
  a non-empty string; it is kept for Steam or Skinport if that venue has no URL yet.
  There is no branch for CS.Deals.
\<close>

definition url_entry :: "market_urls \<Rightarrow> json \<Rightarrow> market_urls" where
  "url_entry urls entry =
     (case entry of
        JObj e \<Rightarrow>
          let mtype = dget e ''marketType'';
              url = py_or (py_or (dget e ''url'') (dget e ''link'')) (dget e ''href'')
          in (case url of
                JStr u \<Rightarrow>
                  if u = [] then urls
                  else if mtype = JStr ''SteamCommunityMarket'' \<or> mtype = JStr ''SteamMarket''
                  then (if steam_url urls = None then urls\<lparr>steam_url := Some u\<rparr> else urls)
                  else if mtype = JStr ''Skinport''
                  then (if skinport_url urls = None then urls\<lparr>skinport_url := Some u\<rparr>
                        else urls)
                  else urls
              | _ \<Rightarrow> urls)
      | _ \<Rightarrow> urls)"

fun url_scan :: "market_urls \<Rightarrow> json list \<Rightarrow> market_urls" where
  "url_scan urls [] = urls"
| "url_scan urls (entry # seq) = url_scan (url_entry urls entry) seq"

definition url_scan_key :: "pydict \<Rightarrow> market_urls \<Rightarrow> string \<Rightarrow> market_urls" where
  "url_scan_key details urls key =
     (case dget details key of JList seq \<Rightarrow> url_scan urls seq | _ \<Rightarrow> urls)"

text \<open>
  Step 2: the first top-level candidate field that is a non-empty string, used only
  when the venue has no URL yet.
\<close>

fun first_str_field :: "pydict \<Rightarrow> string list \<Rightarrow> string option" where
  "first_str_field details [] = None"
| "first_str_field details (field # candidates) =
     (case dget details field of
        JStr v \<Rightarrow> if v \<noteq> [] then Some v else first_str_field details candidates
      | _ \<Rightarrow> first_str_field details candidates)"

definition top_fallback :: "pydict \<Rightarrow> string option \<Rightarrow> string list \<Rightarrow> string option" where
  "top_fallback details cur candidates =
     (case cur of Some u \<Rightarrow> Some u | None \<Rightarrow> first_str_field details candidates)"

definition csdeals_search_url :: "string \<Rightarrow> string" where
  "csdeals_search_url name =
     ''https://cs.deals/new/market''
     @ ''?game=rust&sort=newest&sort_desc=1&exact_match=0&name='' @ quote_plus name"

definition extract_market_urls :: "pydict \<Rightarrow> market_urls" where
  "extract_market_urls details =
     (let urls0 = \<lparr>steam_url = None, skinport_url = None, csdeals_url = None\<rparr>;
          urls1 = url_scan_key details (url_scan_key details urls0 ''buyPrices'') ''sellPrices'';
          urls2 = urls1\<lparr>steam_url :=
                    top_fallback details (steam_url urls1)
                      [''steamMarketUrl'', ''steamMarketURL'', ''steamUrl'']\<rparr>;
          urls3 = urls2\<lparr>skinport_url :=
                    top_fallback details (skinport_url urls2)
                      [''skinportUrl'', ''skinPortUrl'']\<rparr>
      in (case dget details ''name'' of
            JStr name \<Rightarrow>
              if name = [] then urls3
              else
                let safe_name = quote name;
                    urls4 = (if steam_url urls3 = None
                             then urls3\<lparr>steam_url :=
                               Some (''https://steamcommunity.com/market/listings/252490/''
                                     @ safe_name)\<rparr>
                             else urls3);
                    urls5 = (if skinport_url urls4 = None
                             then urls4\<lparr>skinport_url :=
                               Some (''https://skinport.com/rust?search='' @ safe_name)\<rparr>
                             else urls4)
                in urls5\<lparr>csdeals_url := Some (csdeals_search_url name)\<rparr>
          | _ \<Rightarrow> urls3))"

text \<open>
  A document that offers its own CS.Deals links, in a price entry and at top level,
  and resolves Steam from a price entry.
\<close>

definition example_url_details :: pydict where
  "example_url_details =
     [(''name'', JStr ''Big Grin #1''),
      (''csdealsUrl'', JStr ''https://cs.deals/item/1''),
      (''sellPrices'', JList
         [JObj [(''marketType'', JStr ''CSDealsMarketplace''),
                (''url'', JStr ''https://cs.deals/item/2'')],
          JObj [(''marketType'', JStr ''SteamCommunityMarket''),
                (''url'', JStr ''https://steam.example/x'')]])]"

section \<open>Strings: whitespace, numbers, joining\<close>

text \<open>
  The characters that \<open>str.strip()\<close> removes, each as its UTF-8 bytes: U+0009 to
  U+000D, U+001C to U+001F, the space, U+0085, U+00A0, U+1680, U+2000 to U+200A, U+2028,
  U+2029, U+202F, U+205F and U+3000.
\<close>

definition py_whitespace :: "string list" where
  "py_whitespace =
     [[CHR 0x09], [CHR 0x0A], [CHR 0x0B], [CHR 0x0C], [CHR 0x0D],
      [CHR 0x1C], [CHR 0x1D], [CHR 0x1E], [CHR 0x1F], [CHR 0x20],
      [CHR 0xC2, CHR 0x85], [CHR 0xC2, CHR 0xA0],
      [CHR 0xE1, CHR 0x9A, CHR 0x80],
      [CHR 0xE2, CHR 0x80, CHR 0x80], [CHR 0xE2, CHR 0x80, CHR 0x81],
      [CHR 0xE2, CHR 0x80, CHR 0x82], [CHR 0xE2, CHR 0x80, CHR 0x83],
      [CHR 0xE2, CHR 0x80, CHR 0x84], [CHR 0xE2, CHR 0x80, CHR 0x85],
      [CHR 0xE2, CHR 0x80, CHR 0x86], [CHR 0xE2, CHR 0x80, CHR 0x87],
      [CHR 0xE2, CHR 0x80, CHR 0x88], [CHR 0xE2, CHR 0x80, CHR 0x89],
      [CHR 0xE2, CHR 0x80, CHR 0x8A],
      [CHR 0xE2, CHR 0x80, CHR 0xA8], [CHR 0xE2, CHR 0x80, CHR 0xA9],
      [CHR 0xE2, CHR 0x80, CHR 0xAF],
      [CHR 0xE2, CHR 0x81, CHR 0x9F],
      [CHR 0xE3, CHR 0x80, CHR 0x80]]"

text \<open>Dropping leading occurrences of the given non-empty words, as long as there is one.\<close>

function strip_left :: "string list \<Rightarrow> string \<Rightarrow> string" where
  "strip_left ws s =
     (case find (\<lambda>w. w \<noteq> [] \<and> prefix w s) ws of
        None \<Rightarrow> s
      | Some w \<Rightarrow> strip_left ws (drop (length w) s))"
  by pat_completeness auto
termination
proof (relation "measure (\<lambda>(ws, s). length s)")
  show "wf (measure (\<lambda>(ws, s). length s))" by simp
next
  fix ws :: "string list" and s w :: string
  assume "find (\<lambda>w. w \<noteq> [] \<and> prefix w s) ws = Some w"
  then have "w \<noteq> []" and "prefix w s"
    by (auto simp: find_Some_iff)
  then have "0 < length w" and "length w \<le> length s"
    by (simp_all add: prefix_length_le)
  then have "length s - length w < length s"
    by arith
  then show "((ws, drop (length w) s), (ws, s)) \<in> measure (\<lambda>(ws, s). length s)"
    by simp
qed

declare strip_left.simps [simp del]

definition lstrip :: "string \<Rightarrow> string" where
  "lstrip s = strip_left py_whitespace s"

definition rstrip :: "string \<Rightarrow> string" where
  "rstrip s = rev (strip_left (map rev py_whitespace) (rev s))"

text \<open>\<open>s.strip()\<close>.\<close>

definition strip :: "string \<Rightarrow> string" where
  "strip s = rstrip (lstrip s)"

text \<open>\<open>s.split(sep, 1)[0]\<close> for a one-character separator: the text before its first occurrence.\<close>

definition split_first :: "char \<Rightarrow> string \<Rightarrow> string" where
  "split_first sep s = takeWhile (\<lambda>c. c \<noteq> sep) s"

text \<open>\<open>str(n)\<close> for a natural number and for an integer.\<close>

definition digit_char :: "nat \<Rightarrow> char" where
  "digit_char n = ''0123456789'' ! (n mod 10)"

fun str_nat :: "nat \<Rightarrow> string" where
  "str_nat n = (if n < 10 then [digit_char n] else str_nat (n div 10) @ [digit_char (n mod 10)])"

declare str_nat.simps [simp del]

definition str_int :: "int \<Rightarrow> string" where
  "str_int i = (if i < 0 then ''-'' @ str_nat (nat (- i)) else str_nat (nat i))"

text \<open>\<open>f"{n:,}"\<close>: a comma before every group of three digits, counted from the right.\<close>

fun commas_rev :: "string \<Rightarrow> string" where
  "commas_rev (a # b # c # d # ds) = a # b # c # CHR '','' # commas_rev (d # ds)"
| "commas_rev ds = ds"

definition fmt_commas :: "int \<Rightarrow> string" where
  "fmt_commas i =
     (if i < 0 then ''-'' else [])
     @ rev (commas_rev (rev (str_nat (nat \<bar>i\<bar>))))"

text \<open>\<open>int(v)\<close> of a number: a float is truncated towards zero.\<close>

fun py_int :: "json \<Rightarrow> int" where
  "py_int (JBool b) = (if b then 1 else 0)"
| "py_int (JInt n) = n"
| "py_int (JFloat x) = (if x \<ge> 0 then \<lfloor>x\<rfloor> else \<lceil>x\<rceil>)"
| "py_int v = 0"

text \<open>\<open>sep.join(parts)\<close>.\<close>

fun join :: "string \<Rightarrow> string list \<Rightarrow> string" where
  "join sep [] = []"
| "join sep [x] = x"
| "join sep (x # y # ys) = x @ sep @ join sep (y # ys)"

definition newline :: string where
  "newline = [CHR 0x0A]"

section \<open>Rendering the price lines\<close>








text \<open>\<open>not details\<close>: the document is \<open>None\<close> or an empty dictionary.\<close>

fun no_details :: "pydict option \<Rightarrow> bool" where
  "no_details None = True"
| "no_details (Some d) = (d = [])"




section \<open>Exceptions and the conversions that raise\<close>

text \<open>
  A function that can raise returns a sum, the exception on the left. Of the exceptions
  of Python only the classes that the modelled code can raise are listed.
\<close>

datatype error =
    RuntimeError string
  | AttributeError
  | OverflowError
  | ZeroDivisionError

text \<open>
  The largest double is \<open>2^1024 - 2^971\<close>. Converting an \<open>int\<close> rounds to the nearest
  double, ties to even, so every \<open>int\<close> of magnitude \<open>2^1024 - 2^970\<close> or more rounds to
  \<open>2^1024\<close>, which is no double: \<open>float(n)\<close> raises \<open>OverflowError\<close> there, and so does
  the true division \<open>a / b\<close> of two ints when the quotient is that large. Below the
  bound the result is, as everywhere in this development, the exact real.
\<close>

definition float_limit :: int where
  "float_limit = 2 ^ 1024 - 2 ^ 970"

text \<open>\<open>float(v)\<close> of a value that passed \<open>isinstance(v, (int, float))\<close>.\<close>

fun checked_float :: "json \<Rightarrow> error + real" where
  "checked_float (JInt n) =
     (if \<bar>n\<bar> \<ge> float_limit then Inl OverflowError else Inr (real_of_int n))"
| "checked_float v = Inr (py_float v)"

text \<open>\<open>a / b\<close> of two ints.\<close>

definition true_divide :: "int \<Rightarrow> int \<Rightarrow> error + real" where
  "true_divide a b =
     (if b = 0 then Inl ZeroDivisionError
      else if \<bar>a\<bar> \<ge> float_limit * \<bar>b\<bar> then Inl OverflowError
      else Inr (real_of_int a / real_of_int b))"

section \<open>The stats block\<close>

text \<open>
  \<open>_build_stats_block\<close> (\<open>embeds.py\<close>), one definition for each of its seven parts; each
  gives the lines it appends, none or one. The emoji are given by their UTF-8 bytes.
  The function has two steps that can raise on a parsed document: \<open>float(store_price)\<close>
  and \<open>votes_up / total_votes\<close>; they are kept as such. \<open>int(v)\<close> of a finite float and
  the formats cannot raise.
\<close>

definition cart_emoji :: string where
  "cart_emoji = [CHR 0xF0, CHR 0x9F, CHR 0x9B, CHR 0x92]"

definition package_emoji :: string where
  "package_emoji = [CHR 0xF0, CHR 0x9F, CHR 0x93, CHR 0xA6]"

definition people_emoji :: string where
  "people_emoji = [CHR 0xF0, CHR 0x9F, CHR 0x91, CHR 0xA5]"

definition thumbs_up_emoji :: string where
  "thumbs_up_emoji = [CHR 0xF0, CHR 0x9F, CHR 0x91, CHR 0x8D]"

definition star_emoji :: string where
  "star_emoji = [CHR 0xE2, CHR 0xAD, CHR 0x90]"

definition eyes_emoji :: string where
  "eyes_emoji = [CHR 0xF0, CHR 0x9F, CHR 0x91, CHR 0x80]"

definition axe_emoji :: string where
  "axe_emoji = [CHR 0xF0, CHR 0x9F, CHR 0xAA, CHR 0x93]"

text \<open>The store price of the release line: \<open>float(store_price)\<close>, then the cents rule.\<close>

definition stats_store_price :: "pydict \<Rightarrow> error + real option" where
  "stats_store_price details =
     (let sp0 = dget details ''storePrice''
      in if is_int_or_float sp0
         then (case checked_float sp0 of
                 Inl e \<Rightarrow> Inl e
               | Inr v \<Rightarrow> Inr (Some (if v > 50 then v / 100 else v)))
         else Inr None)"

text \<open>Released date and store price, given the store price \<open>sp\<close> computed before.\<close>

definition release_lines ::
    "(nat \<Rightarrow> real \<Rightarrow> string) \<Rightarrow> pydict \<Rightarrow> real option \<Rightarrow> string list" where
  "release_lines fmt details sp =
     (let released = dget details ''timeAccepted'';
          date_txt = (case released of
                        JStr r \<Rightarrow> if r \<noteq> [] then Some (split_first CHR ''T'' r) else None
                      | _ \<Rightarrow> None);
          has_date = (case date_txt of Some t \<Rightarrow> t \<noteq> [] | None \<Rightarrow> False)
      in if has_date \<or> sp \<noteq> None
         then
           (let price_part = (case sp of
                                Some v \<Rightarrow> ''for **$'' @ fmt 2 v @ ''**''
                              | None \<Rightarrow> [])
            in if has_date
               then [strip (cart_emoji @ '' Released on **'' @ the date_txt @ ''** ''
                            @ price_part)]
               else if price_part \<noteq> []
               then [cart_emoji @ '' Store price '' @ price_part]
               else [])
         else [])"

text \<open>A count taken from the first truthy one of two fields, when it is a number.\<close>

definition count_lines :: "pydict \<Rightarrow> string \<Rightarrow> string \<Rightarrow> string \<Rightarrow> string list" where
  "count_lines details key1 key2 label =
     (let v = py_or (dget details key1) (dget details key2)
      in if is_int_or_float v then [label @ fmt_commas (py_int v) @ ''**''] else [])"

definition supply_lines :: "pydict \<Rightarrow> string list" where
  "supply_lines details =
     count_lines details ''supplyTotalEstimated'' ''supplyTotalOwnersEstimated''
       (package_emoji @ '' Estimated supply: **'')"

definition subscriber_lines :: "pydict \<Rightarrow> string list" where
  "subscriber_lines details =
     count_lines details ''subscriptionsCurrent'' ''subscriptionsLifetime''
       (people_emoji @ '' Workshop subscribers: **'')"

definition favourite_lines :: "pydict \<Rightarrow> string list" where
  "favourite_lines details =
     count_lines details ''favouritedCurrent'' ''favouritedLifetime''
       (star_emoji @ '' Favourited: **'')"

text \<open>Votes and the share of positive ones; both counts must be ints.\<close>

definition vote_lines :: "(nat \<Rightarrow> real \<Rightarrow> string) \<Rightarrow> pydict \<Rightarrow> error + string list" where
  "vote_lines fmt details =
     (let votes_up = dget details ''votesUp'';
          votes_down = dget details ''votesDown''
      in if is_int votes_up \<and> is_int votes_down
         then
           (let total_votes = py_int votes_up + py_int votes_down
            in if total_votes > 0
               then
                 (case true_divide (py_int votes_up) total_votes of
                    Inl e \<Rightarrow> Inl e
                  | Inr share \<Rightarrow>
                      (let ratio = share * 100
                       in Inr [thumbs_up_emoji @ '' Votes: **'' @ fmt_commas total_votes
                               @ ''** ('' @ fmt 0 ratio @ ''% positive)'']))
               else Inr [])
         else Inr [])"

definition view_lines :: "pydict \<Rightarrow> string list" where
  "view_lines details =
     (let views = dget details ''views''
      in if is_int_or_float views
         then [eyes_emoji @ '' Workshop views: **'' @ fmt_commas (py_int views) @ ''**'']
         else [])"

text \<open>The components an item breaks into: a non-empty dictionary, its numeric entries.\<close>

definition component_parts :: "pydict \<Rightarrow> string list" where
  "component_parts components =
     map (\<lambda>kv. str_int (py_int (snd kv)) @ ''x '' @ fst kv)
       (filter (\<lambda>kv. is_int_or_float (snd kv)) components)"

definition component_lines :: "pydict \<Rightarrow> string list" where
  "component_lines details =
     (case dget details ''breaksIntoComponents'' of
        JObj components \<Rightarrow>
          if components \<noteq> []
          then (let parts = component_parts components
                in if parts \<noteq> []
                   then [axe_emoji @ '' Breaks into '' @ join '', '' parts] else [])
          else []
      | _ \<Rightarrow> [])"

definition build_stats_block ::
    "(nat \<Rightarrow> real \<Rightarrow> string) \<Rightarrow> pydict option \<Rightarrow> error + string option" where
  "build_stats_block fmt details =
     (if no_details details then Inr None
      else
        let d = the details
        in case stats_store_price d of
             Inl e \<Rightarrow> Inl e
           | Inr sp \<Rightarrow>
               (case vote_lines fmt d of
                  Inl e \<Rightarrow> Inl e
                | Inr votes \<Rightarrow>
                    (let lines = release_lines fmt d sp @ supply_lines d @ subscriber_lines d
                                 @ votes @ favourite_lines d @ view_lines d
                                 @ component_lines d
                     in Inr (if lines \<noteq> [] then Some (join newline lines) else None))))"

subsection \<open>A document without any of the seven facts\<close>

text \<open>
  The seven recognised facts and the shape each one needs: a release date (a non-empty
  string) or a store price (a number); a supply estimate, a subscriber count, a
  favourite count and a view count (numbers); two vote counts (ints); a component
  breakdown (a dictionary with a numeric entry).
\<close>

definition has_release_fact :: "pydict \<Rightarrow> bool" where
  "has_release_fact d \<longleftrightarrow>
     (is_str (dget d ''timeAccepted'') \<and> truthy (dget d ''timeAccepted''))
     \<or> is_int_or_float (dget d ''storePrice'')"

definition has_supply_fact :: "pydict \<Rightarrow> bool" where
  "has_supply_fact d \<longleftrightarrow>
     is_int_or_float (dget d ''supplyTotalEstimated'')
     \<or> is_int_or_float (dget d ''supplyTotalOwnersEstimated'')"

definition has_subscriber_fact :: "pydict \<Rightarrow> bool" where
  "has_subscriber_fact d \<longleftrightarrow>
     is_int_or_float (dget d ''subscriptionsCurrent'')
     \<or> is_int_or_float (dget d ''subscriptionsLifetime'')"

definition has_vote_fact :: "pydict \<Rightarrow> bool" where
  "has_vote_fact d \<longleftrightarrow> is_int (dget d ''votesUp'') \<and> is_int (dget d ''votesDown'')"

definition has_favourite_fact :: "pydict \<Rightarrow> bool" where
  "has_favourite_fact d \<longleftrightarrow>
     is_int_or_float (dget d ''favouritedCurrent'')
     \<or> is_int_or_float (dget d ''favouritedLifetime'')"

definition has_view_fact :: "pydict \<Rightarrow> bool" where
  "has_view_fact d \<longleftrightarrow> is_int_or_float (dget d ''views'')"

fun has_numeric_entry :: "json \<Rightarrow> bool" where
  "has_numeric_entry (JObj kvs) = list_ex (\<lambda>kv. is_int_or_float (snd kv)) kvs"
| "has_numeric_entry v = False"

definition has_component_fact :: "pydict \<Rightarrow> bool" where
  "has_component_fact d \<longleftrightarrow> has_numeric_entry (dget d ''breaksIntoComponents'')"

definition no_fact_fields :: "pydict \<Rightarrow> bool" where
  "no_fact_fields d \<longleftrightarrow>
     \<not> has_release_fact d \<and> \<not> has_supply_fact d \<and> \<not> has_subscriber_fact d
     \<and> \<not> has_vote_fact d \<and> \<not> has_favourite_fact d \<and> \<not> has_view_fact d
     \<and> \<not> has_component_fact d"

text \<open>
  The documents on which a conversion is out of the double range: the store price is an
  int of magnitude \<open>float_limit\<close> or more, or both vote counts are ints, their sum is
  positive and the share of the positive ones is that large.
\<close>

fun int_beyond_double :: "json \<Rightarrow> bool" where
  "int_beyond_double (JInt n) = (\<bar>n\<bar> \<ge> float_limit)"
| "int_beyond_double v = False"

definition share_beyond_double :: "json \<Rightarrow> json \<Rightarrow> bool" where
  "share_beyond_double up down \<longleftrightarrow>
     is_int up \<and> is_int down \<and> py_int up + py_int down > 0
     \<and> \<bar>py_int up\<bar> \<ge> float_limit * (py_int up + py_int down)"

definition beyond_double :: "pydict \<Rightarrow> bool" where
  "beyond_double d \<longleftrightarrow>
     int_beyond_double (dget d ''storePrice'')
     \<or> share_beyond_double (dget d ''votesUp'') (dget d ''votesDown'')"

text \<open>A document whose fact fields are all present and all of the wrong type.\<close>

definition malformed_details :: pydict where
  "malformed_details =
     [(''name'', JStr ''Hat''),
      (''timeAccepted'', JInt 20251106),
      (''storePrice'', JStr ''1.99''),
      (''supplyTotalEstimated'', JStr ''many''),
      (''supplyTotalOwnersEstimated'', JList [JInt 5]),
      (''subscriptionsCurrent'', JNull),
      (''subscriptionsLifetime'', JObj [(''n'', JInt 4)]),
      (''votesUp'', JInt 10),
      (''votesDown'', JFloat 2),
      (''favouritedCurrent'', JStr ''3''),
      (''views'', JList []),
      (''breaksIntoComponents'', JList [JStr ''Cloth''])]"

text \<open>A document with one fact of the right shape among fields of the wrong type.\<close>

definition mixed_details :: pydict where
  "mixed_details =
     [(''timeAccepted'', JList []),
      (''storePrice'', JStr ''1.99''),
      (''supplyTotalEstimated'', JStr ''many''),
      (''supplyTotalOwnersEstimated'', JInt 7),
      (''votesUp'', JStr ''x''),
      (''votesDown'', JInt 3),
      (''views'', JInt 1234567),
      (''breaksIntoComponents'', JObj [(''Cloth'', JStr ''ten''), (''Metal'', JFloat (5 / 2))])]"

text \<open>A document with the seven facts.\<close>

definition full_details :: pydict where
  "full_details =
     [(''timeAccepted'', JStr ''2025-11-06T18:00:00Z''),
      (''storePrice'', JInt 199),
      (''supplyTotalEstimated'', JInt 0),
      (''supplyTotalOwnersEstimated'', JInt 12000),
      (''subscriptionsCurrent'', JInt 950),
      (''votesUp'', JInt 30),
      (''votesDown'', JInt 10),
      (''favouritedLifetime'', JFloat (15 / 2)),
      (''views'', JInt 1234567),
      (''breaksIntoComponents'', JObj [(''Cloth'', JInt 10), (''Metal'', JInt 2)])]"

text \<open>A float format for closed examples that do not reach a formatted number.\<close>

definition plain_fmt :: "nat \<Rightarrow> real \<Rightarrow> string" where
  "plain_fmt decimals x = ''?''"

text \<open>A store price too large for a double, as a JSON document can carry it.\<close>

definition overflowing_details :: pydict where
  "overflowing_details = [(''views'', JInt 5), (''storePrice'', JInt (10 ^ 400))]"

section \<open>Fetching the details of an item by name\<close>












section \<open>Price normalisation: the rule and its boundary\<close>

lemma first_raw_price_numeric:
  "first_raw_price raw ks =
     (if is_int_or_float (first_numeric raw ks)
      then Some (py_float (first_numeric raw ks)) else None)"
  by (induction ks) (simp_all add: Let_def)

lemma store_price_normalize:
  "store_price (normalize_store_item raw) = norm_price (first_numeric raw price_keys)"
  by (simp add: normalize_store_item_def norm_price_def first_raw_price_numeric Let_def)


section \<open>Market breakdown: best prices and percentage deltas\<close>
















text \<open>
  Claim C3. Each percentage delta of the breakdown is \<open>None\<close> when one of its two
  operands is absent or its base is zero, and otherwise is \<open>(new - base) / base * 100\<close>;
  the base is the store price for the Steam delta and the Steam price for the Skinport
  and CS.Deals deltas.
\<close>

theorem C3_percentage_deltas:
  "bd_steam_vs_store_pct (get_market_breakdown details) =
     pct_delta (bd_store_price (get_market_breakdown details))
       (bd_steam_price (get_market_breakdown details))
   \<and> bd_skinport_vs_steam_pct (get_market_breakdown details) =
     pct_delta (bd_steam_price (get_market_breakdown details))
       (bd_skinport_price (get_market_breakdown details))
   \<and> bd_csdeals_vs_steam_pct (get_market_breakdown details) =
     pct_delta (bd_steam_price (get_market_breakdown details))
       (bd_csdeals_price (get_market_breakdown details))"
  by (simp add: get_market_breakdown_def Let_def pct_delta_def pct_vs_steam_def
        split: option.splits)

section \<open>Availability of a price entry\<close>

lemma dget_remove_key_other: "k' \<noteq> k \<Longrightarrow> dget (remove_key k d) k' = dget d k'"
  by (induction d) (auto simp: dget_def remove_key_def)

text \<open>
  Claim C9. In the scan an entry is passed over for unavailability only when its field
  \<open>isAvailable\<close> is the boolean false. Any other entry is handled exactly like the same
  entry without the field: a missing field, null, the boolean true, a number, a string
  or a list all leave the entry in the selection of the minimum.
\<close>

theorem C9_only_false_is_unavailable:
  "scan_entry st (JObj e) =
     (if dget e ''isAvailable'' = JBool False then st
      else scan_entry st (JObj (remove_key ''isAvailable'' e)))
   \<and> steam_price (scan_entry no_prices (steam_entry_with (JBool False))) = None
   \<and> steam_price (scan_entry no_prices (steam_entry_with JNull)) = Some 2
   \<and> steam_price (scan_entry no_prices (steam_entry_with (JBool True))) = Some 2
   \<and> steam_price (scan_entry no_prices (steam_entry_with (JInt 0))) = Some 2
   \<and> steam_price (scan_entry no_prices (steam_entry_with (JStr ''false''))) = Some 2
   \<and> steam_price (scan_entry no_prices (steam_entry_with (JList []))) = Some 2
   \<and> steam_price (scan_entry no_prices
        (JObj [(''marketType'', JStr ''SteamMarket''), (''price'', JFloat 2)])) = Some 2"
proof -
  have rm: "dget (remove_key ''isAvailable'' e) ''isAvailable'' \<noteq> JBool False"
    by (induction e) (auto simp: dget_def remove_key_def)
  have general: "scan_entry st (JObj e) =
     (if dget e ''isAvailable'' = JBool False then st
      else scan_entry st (JObj (remove_key ''isAvailable'' e)))"
    using rm by (simp add: scan_entry_def dget_remove_key_other)
  have instances:
    "steam_price (scan_entry no_prices (steam_entry_with (JBool False))) = None"
    "steam_price (scan_entry no_prices (steam_entry_with JNull)) = Some 2"
    "steam_price (scan_entry no_prices (steam_entry_with (JBool True))) = Some 2"
    "steam_price (scan_entry no_prices (steam_entry_with (JInt 0))) = Some 2"
    "steam_price (scan_entry no_prices (steam_entry_with (JStr ''false''))) = Some 2"
    "steam_price (scan_entry no_prices (steam_entry_with (JList []))) = Some 2"
    "steam_price (scan_entry no_prices
        (JObj [(''marketType'', JStr ''SteamMarket''), (''price'', JFloat 2)])) = Some 2"
    by (simp_all add: scan_entry_def steam_entry_with_def no_prices_def dget_def
          norm_price_def Let_def)
  from general instances show ?thesis by blast
qed

section \<open>Store item normalisation\<close>

lemma truthy_py_or: "truthy b \<Longrightarrow> truthy (py_or a b)"
  by (simp add: py_or_def)

text \<open>
  Claim C10, as the code has it. \<open>_normalize_store_item\<close> is defined on every raw object
  and its name is never falsy: it is the raw name when that is truthy, whatever its
  JSON type, and the sentinel \<open>Unknown\<close> otherwise; when the raw name is a string, the
  name is a non-empty string. The identifiers are passed through, the icon, the item
  type and the collection are a truthy raw entry or \<open>None\<close>, and the store price is the
  normalised first numeric price.
\<close>

theorem C10_normalize_store_item:
  "item_name (normalize_store_item raw) =
     (if truthy (dget raw ''name'') then dget raw ''name'' else JStr ''Unknown'')
   \<and> truthy (item_name (normalize_store_item raw))
   \<and> item_name (normalize_store_item ((''name'', JStr s) # raw)) =
       JStr (if s = [] then ''Unknown'' else s)
   \<and> item_name (normalize_store_item []) = JStr ''Unknown''
   \<and> item_name (normalize_store_item ((''name'', JNull) # raw)) = JStr ''Unknown''
   \<and> item_id (normalize_store_item raw) = dget raw ''id''
   \<and> workshop_file_id (normalize_store_item raw) = dget raw ''workshopFileId''
   \<and> app_id (normalize_store_item raw) = dget raw ''appId''
   \<and> store_price (normalize_store_item raw) = norm_price (first_numeric raw price_keys)
   \<and> icon_url (normalize_store_item raw) =
       (if truthy (dget raw ''iconUrl'') then dget raw ''iconUrl''
        else if truthy (dget raw ''iconURL'') then dget raw ''iconURL''
        else if truthy (dget raw ''imageUrl'') then dget raw ''imageUrl'' else JNull)
   \<and> item_type (normalize_store_item raw) =
       (if truthy (dget raw ''itemType'') then dget raw ''itemType'' else JNull)
   \<and> item_collection (normalize_store_item raw) =
       (if truthy (dget raw ''itemCollection'') then dget raw ''itemCollection'' else JNull)"
proof -
  have fields:
    "item_name (normalize_store_item raw) =
       (if truthy (dget raw ''name'') then dget raw ''name'' else JStr ''Unknown'')"
    "item_id (normalize_store_item raw) = dget raw ''id''"
    "workshop_file_id (normalize_store_item raw) = dget raw ''workshopFileId''"
    "app_id (normalize_store_item raw) = dget raw ''appId''"
    "icon_url (normalize_store_item raw) =
       (if truthy (dget raw ''iconUrl'') then dget raw ''iconUrl''
        else if truthy (dget raw ''iconURL'') then dget raw ''iconURL''
        else if truthy (dget raw ''imageUrl'') then dget raw ''imageUrl'' else JNull)"
    "item_type (normalize_store_item raw) =
       (if truthy (dget raw ''itemType'') then dget raw ''itemType'' else JNull)"
    "item_collection (normalize_store_item raw) =
       (if truthy (dget raw ''itemCollection'') then dget raw ''itemCollection'' else JNull)"
    by (simp_all add: normalize_store_item_def Let_def py_or_def)
  have nonfalsy: "truthy (item_name (normalize_store_item raw))"
    by (simp add: normalize_store_item_def Let_def py_or_def)
  have strings:
    "item_name (normalize_store_item ((''name'', JStr s) # raw)) =
       JStr (if s = [] then ''Unknown'' else s)"
    "item_name (normalize_store_item []) = JStr ''Unknown''"
    "item_name (normalize_store_item ((''name'', JNull) # raw)) = JStr ''Unknown''"
    by (simp_all add: normalize_store_item_def Let_def py_or_def dget_def)
  from fields nonfalsy strings store_price_normalize [of raw] show ?thesis by blast
qed

text \<open>
  The claim as written fails: a raw record whose name is the number 5 yields a store
  item whose name is that number, not a string.
\<close>

theorem C10_name_not_always_string:
  "item_name (normalize_store_item [(''name'', JInt 5)]) = JInt 5
   \<and> \<not> is_str (item_name (normalize_store_item [(''name'', JInt 5)]))"
  by (simp add: normalize_store_item_def Let_def py_or_def dget_def)

section \<open>Marketplace URLs: CS.Deals\<close>

lemma csdeals_url_entry: "csdeals_url (url_entry urls entry) = csdeals_url urls"
  by (simp add: url_entry_def Let_def split: json.splits)

lemma csdeals_url_scan: "csdeals_url (url_scan urls seq) = csdeals_url urls"
  by (induction seq arbitrary: urls) (simp_all add: csdeals_url_entry)

lemma csdeals_url_scan_key: "csdeals_url (url_scan_key details urls key) = csdeals_url urls"
  by (simp add: url_scan_key_def csdeals_url_scan split: json.splits)

lemma example_csdeals:
  "csdeals_search_url ''Big Grin #1'' =
     ''https://cs.deals/new/market?game=rust&sort=newest&sort_desc=1&exact_match=0&name=Big+Grin+%231''"
  by (simp add: csdeals_search_url_def quote_plus_def quote_with_def always_safe_def
        pct_encode_def hex_digit_def)

lemma csdeals_url_of_name:
  "csdeals_url (extract_market_urls details) =
     (case dget details ''name'' of
        JStr name \<Rightarrow> if name = [] then None else Some (csdeals_search_url name)
      | _ \<Rightarrow> None)"
  by (simp add: extract_market_urls_def Let_def csdeals_url_scan_key split: json.splits)

text \<open>
  Claim C4. When the document's name is a non-empty string, the CS.Deals URL of
  \<open>extract_market_urls\<close> is the search URL built from the percent-plus-encoded name, with
  the query \<open>game=rust&sort=newest&sort_desc=1&exact_match=0\<close>, whatever the price entries
  and the top-level fields hold and whatever was found for Steam and Skinport; with
  any other name there is no CS.Deals URL at all.
\<close>

theorem C4_csdeals_url_synthesized:
  "csdeals_url (extract_market_urls details) =
     (case dget details ''name'' of
        JStr name \<Rightarrow> if name = [] then None else Some (csdeals_search_url name)
      | _ \<Rightarrow> None)
   \<and> csdeals_search_url name =
       ''https://cs.deals/new/market?game=rust&sort=newest&sort_desc=1&exact_match=0&name=''
       @ quote_plus name
   \<and> csdeals_url (extract_market_urls example_url_details) =
       Some (''https://cs.deals/new/market?game=rust&sort=newest&sort_desc=1&exact_match=0''
             @ ''&name=Big+Grin+%231'')
   \<and> steam_url (extract_market_urls example_url_details) = Some ''https://steam.example/x''"
proof -
  note general = csdeals_url_of_name
  have url: "csdeals_search_url name =
       ''https://cs.deals/new/market?game=rust&sort=newest&sort_desc=1&exact_match=0&name=''
       @ quote_plus name"
    by (simp add: csdeals_search_url_def)
  have name: "dget example_url_details ''name'' = JStr ''Big Grin #1''"
    by (simp add: example_url_details_def dget_def)
  have ex: "csdeals_url (extract_market_urls example_url_details) =
       Some (''https://cs.deals/new/market?game=rust&sort=newest&sort_desc=1&exact_match=0''
             @ ''&name=Big+Grin+%231'')"
    using general [of example_url_details] by (simp add: name example_csdeals)
  have steam: "steam_url (extract_market_urls example_url_details) =
       Some ''https://steam.example/x''"
    by (simp add: extract_market_urls_def example_url_details_def Let_def url_scan_key_def
          url_entry_def dget_def py_or_def top_fallback_def)
  from general [of details] url ex steam show ?thesis by blast
qed

section \<open>Rendering the price lines: the text\<close>


















section \<open>The stats block: skipped fields and the conversions that raise\<close>

lemma strip_cart_stars:
  "strip (cart_emoji @ t @ ''**'') = cart_emoji @ t @ ''**''"
  by (simp add: strip_def lstrip_def rstrip_def strip_left.simps py_whitespace_def
        cart_emoji_def)

lemma strip_cart_space:
  "strip (cart_emoji @ t @ ''** '') = cart_emoji @ t @ ''**''"
  by (simp add: strip_def lstrip_def rstrip_def strip_left.simps py_whitespace_def
        cart_emoji_def)

lemma store_price_skip:
  "\<not> is_int_or_float (dget d ''storePrice'') \<Longrightarrow> stats_store_price d = Inr None"
  by (simp add: stats_store_price_def)

lemma store_price_in_range:
  "\<not> int_beyond_double (dget d ''storePrice'') \<Longrightarrow>
   stats_store_price d = Inr (norm_price (dget d ''storePrice''))"
  by (cases "dget d ''storePrice''")
     (simp_all add: stats_store_price_def norm_price_def Let_def)

lemma store_price_overflow:
  "int_beyond_double (dget d ''storePrice'') \<Longrightarrow> stats_store_price d = Inl OverflowError"
  by (cases "dget d ''storePrice''") (simp_all add: stats_store_price_def)

lemma release_lines_skip:
  "\<not> (is_str (dget d ''timeAccepted'') \<and> truthy (dget d ''timeAccepted'')) \<Longrightarrow>
   release_lines fmt d None = []"
  by (cases "dget d ''timeAccepted''") (simp_all add: release_lines_def Let_def)

lemma release_lines_price_only:
  "\<not> (is_str (dget d ''timeAccepted'') \<and> truthy (dget d ''timeAccepted'')) \<Longrightarrow>
   release_lines fmt d (Some v) =
     [[CHR 0xF0, CHR 0x9F, CHR 0x9B, CHR 0x92] @ '' Store price for **$'' @ fmt 2 v @ ''**'']"
  by (cases "dget d ''timeAccepted''") (simp_all add: release_lines_def Let_def cart_emoji_def)

lemma count_lines_skip:
  "\<not> is_int_or_float (py_or (dget d k1) (dget d k2)) \<Longrightarrow> count_lines d k1 k2 label = []"
  by (simp add: count_lines_def Let_def)

lemma count_lines_number:
  "is_int_or_float (py_or (dget d k1) (dget d k2)) \<Longrightarrow>
   count_lines d k1 k2 label =
     [label @ fmt_commas (py_int (py_or (dget d k1) (dget d k2))) @ ''**'']"
  by (simp add: count_lines_def Let_def)

lemma vote_lines_skip:
  "\<not> (is_int (dget d ''votesUp'') \<and> is_int (dget d ''votesDown'')) \<Longrightarrow>
   vote_lines fmt d = Inr []"
  by (auto simp: vote_lines_def Let_def)

lemma vote_lines_overflow:
  "share_beyond_double (dget d ''votesUp'') (dget d ''votesDown'') \<Longrightarrow>
   vote_lines fmt d = Inl OverflowError"
  by (auto simp: vote_lines_def Let_def share_beyond_double_def true_divide_def)

lemma vote_lines_in_range:
  "\<not> share_beyond_double (dget d ''votesUp'') (dget d ''votesDown'') \<Longrightarrow>
   \<exists>votes. vote_lines fmt d = Inr votes"
  by (auto simp: vote_lines_def Let_def share_beyond_double_def true_divide_def)

lemma view_lines_skip:
  "\<not> is_int_or_float (dget d ''views'') \<Longrightarrow> view_lines d = []"
  by (simp add: view_lines_def Let_def)

lemma component_parts_empty:
  "\<not> list_ex (\<lambda>kv. is_int_or_float (snd kv)) kvs \<Longrightarrow> component_parts kvs = []"
  by (induction kvs) (simp_all add: component_parts_def)

lemma component_lines_skip: "\<not> has_component_fact d \<Longrightarrow> component_lines d = []"
  by (cases "dget d ''breaksIntoComponents''")
     (simp_all add: has_component_fact_def component_lines_def component_parts_empty Let_def)

lemma component_parts_Cons:
  "component_parts ((k, v) # kvs) =
     (if is_int_or_float v then [str_int (py_int v) @ ''x '' @ k] else [])
     @ component_parts kvs"
  by (simp add: component_parts_def)

lemma build_no_details:
  "build_stats_block fmt None = Inr None" "build_stats_block fmt (Some []) = Inr None"
  by (simp_all add: build_stats_block_def)

lemma build_composed:
  "stats_store_price (kv # d) = Inr sp \<Longrightarrow> vote_lines fmt (kv # d) = Inr votes \<Longrightarrow>
   build_stats_block fmt (Some (kv # d)) =
     Inr (let lines = release_lines fmt (kv # d) sp @ supply_lines (kv # d)
                      @ subscriber_lines (kv # d) @ votes @ favourite_lines (kv # d)
                      @ view_lines (kv # d) @ component_lines (kv # d)
          in if lines = [] then None else Some (join [CHR 0x0A] lines))"
  by (simp add: build_stats_block_def Let_def newline_def)

lemma beyond_double_empty: "\<not> beyond_double []"
  by (simp add: beyond_double_def dget_def share_beyond_double_def)

lemma build_overflow:
  assumes "beyond_double d"
  shows "build_stats_block fmt (Some d) = Inl OverflowError"
proof -
  from assms beyond_double_empty have ne: "\<not> no_details (Some d)" by auto
  show ?thesis
  proof (cases "int_beyond_double (dget d ''storePrice'')")
    case True
    then show ?thesis using ne by (simp add: build_stats_block_def store_price_overflow)
  next
    case False
    with assms have "share_beyond_double (dget d ''votesUp'') (dget d ''votesDown'')"
      by (simp add: beyond_double_def)
    then show ?thesis using ne False
      by (simp add: build_stats_block_def store_price_in_range vote_lines_overflow)
  qed
qed

lemma build_in_range:
  assumes "\<not> beyond_double d"
  shows "\<exists>block. build_stats_block fmt (Some d) = Inr block"
proof -
  from assms have a: "\<not> int_beyond_double (dget d ''storePrice'')"
    and b: "\<not> share_beyond_double (dget d ''votesUp'') (dget d ''votesDown'')"
    by (simp_all add: beyond_double_def)
  from vote_lines_in_range [OF b, of fmt] obtain votes where "vote_lines fmt d = Inr votes"
    by blast
  then show ?thesis
    by (simp add: build_stats_block_def store_price_in_range [OF a] Let_def)
qed

lemma build_no_facts:
  assumes "no_fact_fields details"
  shows "build_stats_block fmt (Some details) = Inr None"
proof -
  from assms have "stats_store_price details = Inr None"
    "release_lines fmt details None = []" "supply_lines details = []"
    "subscriber_lines details = []" "vote_lines fmt details = Inr []"
    "favourite_lines details = []" "view_lines details = []" "component_lines details = []"
    by (simp_all add: no_fact_fields_def store_price_skip release_lines_skip vote_lines_skip
          view_lines_skip component_lines_skip supply_lines_def subscriber_lines_def
          favourite_lines_def has_supply_fact_def has_subscriber_fact_def has_view_fact_def
          has_favourite_fact_def has_release_fact_def has_vote_fact_def count_lines_skip
          py_or_def)
  then show ?thesis
    by (simp add: build_stats_block_def Let_def)
qed


lemma supply_lines_skip:
  "\<not> is_int_or_float
       (py_or (dget d ''supplyTotalEstimated'') (dget d ''supplyTotalOwnersEstimated'')) \<Longrightarrow>
   supply_lines d = []"
  by (simp add: supply_lines_def count_lines_skip)

lemma subscriber_lines_skip:
  "\<not> is_int_or_float
       (py_or (dget d ''subscriptionsCurrent'') (dget d ''subscriptionsLifetime'')) \<Longrightarrow>
   subscriber_lines d = []"
  by (simp add: subscriber_lines_def count_lines_skip)

lemma favourite_lines_skip:
  "\<not> is_int_or_float
       (py_or (dget d ''favouritedCurrent'') (dget d ''favouritedLifetime'')) \<Longrightarrow>
   favourite_lines d = []"
  by (simp add: favourite_lines_def count_lines_skip)

subsection \<open>Three documents\<close>

lemma malformed_no_facts: "no_fact_fields malformed_details"
  by (simp add: no_fact_fields_def malformed_details_def has_release_fact_def
        has_supply_fact_def has_subscriber_fact_def has_vote_fact_def has_favourite_fact_def
        has_view_fact_def has_component_fact_def dget_def)

lemma fmt_commas_7: "fmt_commas 7 = ''7''"
  by (simp add: fmt_commas_def str_nat.simps digit_char_def)

lemma fmt_commas_1234567: "fmt_commas 1234567 = ''1,234,567''"
  by (simp add: fmt_commas_def str_nat.simps digit_char_def)

lemma mixed_block:
  "build_stats_block fmt (Some mixed_details) =
     Inr (Some ([CHR 0xF0, CHR 0x9F, CHR 0x91, CHR 0x80] @ '' Workshop views: **1,234,567**''
                @ [CHR 0x0A]
                @ [CHR 0xF0, CHR 0x9F, CHR 0xAA, CHR 0x93] @ '' Breaks into 2x Metal''))"
proof -
  have sp: "stats_store_price mixed_details = Inr None"
    by (simp add: stats_store_price_def mixed_details_def dget_def)
  have rel: "release_lines fmt mixed_details None = []"
    by (simp add: release_lines_def mixed_details_def dget_def)
  have sup: "supply_lines mixed_details = []"
    by (simp add: supply_lines_def count_lines_def mixed_details_def dget_def py_or_def)
  have sub: "subscriber_lines mixed_details = []"
    by (simp add: subscriber_lines_def count_lines_def mixed_details_def dget_def py_or_def)
  have votes: "vote_lines fmt mixed_details = Inr []"
    by (simp add: vote_lines_def mixed_details_def dget_def)
  have fav: "favourite_lines mixed_details = []"
    by (simp add: favourite_lines_def count_lines_def mixed_details_def dget_def py_or_def)
  have views: "view_lines mixed_details =
      [[CHR 0xF0, CHR 0x9F, CHR 0x91, CHR 0x80] @ '' Workshop views: **1,234,567**'']"
    by (simp add: view_lines_def mixed_details_def dget_def eyes_emoji_def fmt_commas_1234567)
  have comp: "component_lines mixed_details =
      [[CHR 0xF0, CHR 0x9F, CHR 0xAA, CHR 0x93] @ '' Breaks into 2x Metal'']"
    by (simp add: component_lines_def mixed_details_def dget_def axe_emoji_def
          component_parts_def str_int_def str_nat.simps digit_char_def)
  have "mixed_details \<noteq> []" by (simp add: mixed_details_def)
  then show ?thesis
    by (simp add: build_stats_block_def sp rel sup sub votes fav views comp newline_def)
qed

lemma overflowing_block:
  "build_stats_block fmt (Some overflowing_details) = Inl OverflowError"
proof -
  have "(2::int) ^ 1024 \<le> 10 ^ 400" by simp
  then have "float_limit \<le> 10 ^ 400" by (simp add: float_limit_def)
  then have "beyond_double overflowing_details"
    by (simp add: beyond_double_def overflowing_details_def dget_def)
  then show ?thesis by (rule build_overflow)
qed

lemma full_block:
  "build_stats_block fmt (Some full_details) =
     Inr (Some ([CHR 0xF0, CHR 0x9F, CHR 0x9B, CHR 0x92]
                @ '' Released on **2025-11-06** for **$'' @ fmt 2 (199 / 100) @ ''**''
                @ [CHR 0x0A]
                @ [CHR 0xF0, CHR 0x9F, CHR 0x93, CHR 0xA6] @ '' Estimated supply: **12,000**''
                @ [CHR 0x0A]
                @ [CHR 0xF0, CHR 0x9F, CHR 0x91, CHR 0xA5] @ '' Workshop subscribers: **950**''
                @ [CHR 0x0A]
                @ [CHR 0xF0, CHR 0x9F, CHR 0x91, CHR 0x8D] @ '' Votes: **40** (''
                @ fmt 0 75 @ ''% positive)''
                @ [CHR 0x0A]
                @ [CHR 0xE2, CHR 0xAD, CHR 0x90] @ '' Favourited: **7**''
                @ [CHR 0x0A]
                @ [CHR 0xF0, CHR 0x9F, CHR 0x91, CHR 0x80] @ '' Workshop views: **1,234,567**''
                @ [CHR 0x0A]
                @ [CHR 0xF0, CHR 0x9F, CHR 0xAA, CHR 0x93]
                @ '' Breaks into 10x Cloth, 2x Metal''))"
proof -
  have "(199::int) < 2 ^ 8" by simp
  also have "(2::int) ^ 8 \<le> 2 ^ 970" by (rule power_increasing) simp_all
  also have "(2::int) ^ 970 = 2 * 2 ^ 970 - 2 ^ 970" by simp
  also have "\<dots> \<le> 2 ^ 1024 - 2 ^ 970"
    using power_increasing [of 971 1024 "2::int"] by simp
  finally have small: "(199::int) < float_limit" by (simp add: float_limit_def)
  have sp: "stats_store_price full_details = Inr (Some (199 / 100))"
    using small by (simp add: stats_store_price_def full_details_def dget_def)
  have rel: "release_lines fmt full_details (Some (199 / 100)) =
      [[CHR 0xF0, CHR 0x9F, CHR 0x9B, CHR 0x92]
       @ '' Released on **2025-11-06** for **$'' @ fmt 2 (199 / 100) @ ''**'']"
    using strip_cart_stars [of "'' Released on **2025-11-06** for **$'' @ fmt 2 (199 / 100)"]
    by (simp add: release_lines_def full_details_def dget_def split_first_def cart_emoji_def)
  have sup: "supply_lines full_details =
      [[CHR 0xF0, CHR 0x9F, CHR 0x93, CHR 0xA6] @ '' Estimated supply: **12,000**'']"
    by (simp add: supply_lines_def count_lines_def full_details_def dget_def py_or_def
          package_emoji_def fmt_commas_def str_nat.simps digit_char_def)
  have sub: "subscriber_lines full_details =
      [[CHR 0xF0, CHR 0x9F, CHR 0x91, CHR 0xA5] @ '' Workshop subscribers: **950**'']"
    by (simp add: subscriber_lines_def count_lines_def full_details_def dget_def py_or_def
          people_emoji_def fmt_commas_def str_nat.simps digit_char_def)
  have "(30::int) < 199" by simp
  with small have "(30::int) < float_limit * 40" by simp
  then have share: "true_divide 30 40 = Inr (3 / 4)"
    by (simp add: true_divide_def)
  have votes: "vote_lines fmt full_details =
      Inr [[CHR 0xF0, CHR 0x9F, CHR 0x91, CHR 0x8D] @ '' Votes: **40** (''
           @ fmt 0 75 @ ''% positive)'']"
    by (simp add: vote_lines_def full_details_def dget_def share thumbs_up_emoji_def
          fmt_commas_def str_nat.simps digit_char_def)
  have fav: "favourite_lines full_details =
      [[CHR 0xE2, CHR 0xAD, CHR 0x90] @ '' Favourited: **7**'']"
    by (simp add: favourite_lines_def count_lines_def full_details_def dget_def py_or_def
          star_emoji_def fmt_commas_def str_nat.simps digit_char_def)
  have views: "view_lines full_details =
      [[CHR 0xF0, CHR 0x9F, CHR 0x91, CHR 0x80] @ '' Workshop views: **1,234,567**'']"
    by (simp add: view_lines_def full_details_def dget_def eyes_emoji_def fmt_commas_1234567)
  have comp: "component_lines full_details =
      [[CHR 0xF0, CHR 0x9F, CHR 0xAA, CHR 0x93] @ '' Breaks into 10x Cloth, 2x Metal'']"
    by (simp add: component_lines_def full_details_def dget_def axe_emoji_def
          component_parts_def str_int_def str_nat.simps digit_char_def)
  have "full_details \<noteq> []" by (simp add: full_details_def)
  then show ?thesis
    by (simp add: build_stats_block_def sp rel sup sub votes fav views comp newline_def)
qed

subsection \<open>The claim\<close>

text \<open>
  Claim C8, as amended. For a document in which none of the seven fact fields has the
  shape it needs, the stats block is \<open>None\<close>; so it is for a missing or an empty document.
  A field of the wrong type is skipped, whatever the other fields hold: the part it
  belongs to appends no line and raises nothing (for a count read through \<open>or\<close>, the
  value tested is the first truthy one of the two fields), a component entry that is
  not a number is left out of the list, and the block is made of the lines of the
  seven parts in their order, joined by line feeds. The builder raises only where a
  number is outside the double range: an int store price of magnitude
  \<open>2^1024 - 2^970\<close> or more, or int vote counts whose positive share is that large; on
  every other document it returns. Examples: one fact of the right shape among fields
  of the wrong type, and a document with the seven facts.
\<close>

theorem C8_stats_block:
  "(no_fact_fields d \<longrightarrow> build_stats_block fmt (Some d) = Inr None)
   \<and> build_stats_block fmt None = Inr None
   \<and> build_stats_block fmt (Some []) = Inr None
   \<and> (\<not> is_int_or_float (dget d ''storePrice'') \<longrightarrow> stats_store_price d = Inr None)
   \<and> (\<not> (is_str (dget d ''timeAccepted'') \<and> truthy (dget d ''timeAccepted'')) \<longrightarrow>
        release_lines fmt d None = []
        \<and> release_lines fmt d (Some v) =
            [[CHR 0xF0, CHR 0x9F, CHR 0x9B, CHR 0x92] @ '' Store price for **$'' @ fmt 2 v
             @ ''**''])
   \<and> (\<not> is_int_or_float
           (py_or (dget d ''supplyTotalEstimated'') (dget d ''supplyTotalOwnersEstimated''))
        \<longrightarrow> supply_lines d = [])
   \<and> (\<not> is_int_or_float
           (py_or (dget d ''subscriptionsCurrent'') (dget d ''subscriptionsLifetime''))
        \<longrightarrow> subscriber_lines d = [])
   \<and> (\<not> (is_int (dget d ''votesUp'') \<and> is_int (dget d ''votesDown'')) \<longrightarrow>
        vote_lines fmt d = Inr [])
   \<and> (\<not> is_int_or_float
           (py_or (dget d ''favouritedCurrent'') (dget d ''favouritedLifetime''))
        \<longrightarrow> favourite_lines d = [])
   \<and> (\<not> is_int_or_float (dget d ''views'') \<longrightarrow> view_lines d = [])
   \<and> (\<not> has_component_fact d \<longrightarrow> component_lines d = [])
   \<and> component_parts ((k, c) # kvs) =
        (if is_int_or_float c then [str_int (py_int c) @ ''x '' @ k] else [])
        @ component_parts kvs
   \<and> (stats_store_price (kv # d) = Inr sp \<and> vote_lines fmt (kv # d) = Inr votes \<longrightarrow>
        build_stats_block fmt (Some (kv # d)) =
          Inr (let lines = release_lines fmt (kv # d) sp @ supply_lines (kv # d)
                           @ subscriber_lines (kv # d) @ votes @ favourite_lines (kv # d)
                           @ view_lines (kv # d) @ component_lines (kv # d)
               in if lines = [] then None else Some (join [CHR 0x0A] lines)))
   \<and> (\<not> beyond_double d \<longrightarrow> (\<exists>block. build_stats_block fmt (Some d) = Inr block))
   \<and> (beyond_double d \<longrightarrow> build_stats_block fmt (Some d) = Inl OverflowError)
   \<and> build_stats_block fmt (Some mixed_details) =
       Inr (Some ([CHR 0xF0, CHR 0x9F, CHR 0x91, CHR 0x80]
                  @ '' Workshop views: **1,234,567**'' @ [CHR 0x0A]
                  @ [CHR 0xF0, CHR 0x9F, CHR 0xAA, CHR 0x93] @ '' Breaks into 2x Metal''))
   \<and> build_stats_block fmt (Some full_details) =
       Inr (Some ([CHR 0xF0, CHR 0x9F, CHR 0x9B, CHR 0x92]
                  @ '' Released on **2025-11-06** for **$'' @ fmt 2 (199 / 100) @ ''**''
                  @ [CHR 0x0A]
                  @ [CHR 0xF0, CHR 0x9F, CHR 0x93, CHR 0xA6]
                  @ '' Estimated supply: **12,000**'' @ [CHR 0x0A]
                  @ [CHR 0xF0, CHR 0x9F, CHR 0x91, CHR 0xA5]
                  @ '' Workshop subscribers: **950**'' @ [CHR 0x0A]
                  @ [CHR 0xF0, CHR 0x9F, CHR 0x91, CHR 0x8D] @ '' Votes: **40** (''
                  @ fmt 0 75 @ ''% positive)'' @ [CHR 0x0A]
                  @ [CHR 0xE2, CHR 0xAD, CHR 0x90] @ '' Favourited: **7**'' @ [CHR 0x0A]
                  @ [CHR 0xF0, CHR 0x9F, CHR 0x91, CHR 0x80]
                  @ '' Workshop views: **1,234,567**'' @ [CHR 0x0A]
                  @ [CHR 0xF0, CHR 0x9F, CHR 0xAA, CHR 0x93]
                  @ '' Breaks into 10x Cloth, 2x Metal''))"
proof (intro conjI impI)
  show "build_stats_block fmt None = Inr None" "build_stats_block fmt (Some []) = Inr None"
    by (rule build_no_details)+
  show "component_parts ((k, c) # kvs) =
      (if is_int_or_float c then [str_int (py_int c) @ ''x '' @ k] else [])
      @ component_parts kvs"
    by (rule component_parts_Cons)
  show "build_stats_block fmt (Some mixed_details) =
       Inr (Some ([CHR 0xF0, CHR 0x9F, CHR 0x91, CHR 0x80]
                  @ '' Workshop views: **1,234,567**'' @ [CHR 0x0A]
                  @ [CHR 0xF0, CHR 0x9F, CHR 0xAA, CHR 0x93] @ '' Breaks into 2x Metal''))"
    by (rule mixed_block)
  show "build_stats_block fmt (Some full_details) =
       Inr (Some ([CHR 0xF0, CHR 0x9F, CHR 0x9B, CHR 0x92]
                  @ '' Released on **2025-11-06** for **$'' @ fmt 2 (199 / 100) @ ''**''
                  @ [CHR 0x0A]
                  @ [CHR 0xF0, CHR 0x9F, CHR 0x93, CHR 0xA6]
                  @ '' Estimated supply: **12,000**'' @ [CHR 0x0A]
                  @ [CHR 0xF0, CHR 0x9F, CHR 0x91, CHR 0xA5]
                  @ '' Workshop subscribers: **950**'' @ [CHR 0x0A]
                  @ [CHR 0xF0, CHR 0x9F, CHR 0x91, CHR 0x8D] @ '' Votes: **40** (''
                  @ fmt 0 75 @ ''% positive)'' @ [CHR 0x0A]
                  @ [CHR 0xE2, CHR 0xAD, CHR 0x90] @ '' Favourited: **7**'' @ [CHR 0x0A]
                  @ [CHR 0xF0, CHR 0x9F, CHR 0x91, CHR 0x80]
                  @ '' Workshop views: **1,234,567**'' @ [CHR 0x0A]
                  @ [CHR 0xF0, CHR 0x9F, CHR 0xAA, CHR 0x93]
                  @ '' Breaks into 10x Cloth, 2x Metal''))"
    by (rule full_block)
next
  assume "no_fact_fields d"
  then show "build_stats_block fmt (Some d) = Inr None" by (rule build_no_facts)
next
  assume "\<not> is_int_or_float (dget d ''storePrice'')"
  then show "stats_store_price d = Inr None" by (rule store_price_skip)
next
  assume "\<not> (is_str (dget d ''timeAccepted'') \<and> truthy (dget d ''timeAccepted''))"
  then show "release_lines fmt d None = []" by (rule release_lines_skip)
next
  assume "\<not> (is_str (dget d ''timeAccepted'') \<and> truthy (dget d ''timeAccepted''))"
  then show "release_lines fmt d (Some v) =
      [[CHR 0xF0, CHR 0x9F, CHR 0x9B, CHR 0x92] @ '' Store price for **$'' @ fmt 2 v
       @ ''**'']"
    by (rule release_lines_price_only)
next
  assume "\<not> is_int_or_float
      (py_or (dget d ''supplyTotalEstimated'') (dget d ''supplyTotalOwnersEstimated''))"
  then show "supply_lines d = []" by (rule supply_lines_skip)
next
  assume "\<not> is_int_or_float
      (py_or (dget d ''subscriptionsCurrent'') (dget d ''subscriptionsLifetime''))"
  then show "subscriber_lines d = []" by (rule subscriber_lines_skip)
next
  assume "\<not> (is_int (dget d ''votesUp'') \<and> is_int (dget d ''votesDown''))"
  then show "vote_lines fmt d = Inr []" by (rule vote_lines_skip)
next
  assume "\<not> is_int_or_float
      (py_or (dget d ''favouritedCurrent'') (dget d ''favouritedLifetime''))"
  then show "favourite_lines d = []" by (rule favourite_lines_skip)
next
  assume "\<not> is_int_or_float (dget d ''views'')"
  then show "view_lines d = []" by (rule view_lines_skip)
next
  assume "\<not> has_component_fact d"
  then show "component_lines d = []" by (rule component_lines_skip)
next
  assume "stats_store_price (kv # d) = Inr sp \<and> vote_lines fmt (kv # d) = Inr votes"
  then show "build_stats_block fmt (Some (kv # d)) =
      Inr (let lines = release_lines fmt (kv # d) sp @ supply_lines (kv # d)
                       @ subscriber_lines (kv # d) @ votes @ favourite_lines (kv # d)
                       @ view_lines (kv # d) @ component_lines (kv # d)
           in if lines = [] then None else Some (join [CHR 0x0A] lines))"
    using build_composed [of kv d sp fmt votes] by blast
next
  assume "\<not> beyond_double d"
  then show "\<exists>block. build_stats_block fmt (Some d) = Inr block" by (rule build_in_range)
next
  assume "beyond_double d"
  then show "build_stats_block fmt (Some d) = Inl OverflowError" by (rule build_overflow)
qed

theorem C8_stats_block_witness:
  "no_fact_fields malformed_details
   \<and> \<not> beyond_double malformed_details
   \<and> build_stats_block (\<lambda>n x. ''?'') (Some malformed_details) = Inr None"
proof -
  have "\<not> beyond_double malformed_details"
    by (simp add: beyond_double_def malformed_details_def dget_def share_beyond_double_def)
  with C8_stats_block [of malformed_details "\<lambda>n x. ''?''"] malformed_no_facts
  show ?thesis by blast
qed

text \<open>
  As the claim is worded, no field can make the render fail. A store price that is an
  int beyond the double range does: \<open>float(store_price)\<close> raises \<open>OverflowError\<close>,
  although the document has a view count of the right shape.
\<close>

theorem C8_render_can_fail:
  "build_stats_block plain_fmt (Some overflowing_details) = Inl OverflowError"
  by (rule overflowing_block)

section \<open>Fetching by name: trimming, the request and the failures\<close>

subsection \<open>Trimming\<close>


















subsection \<open>Where the text HTTP 404 can occur\<close>




















subsection \<open>The claim\<close>

















end
